theory Spec2Isabelle
  imports Main
begin

section \<open>The game session component of \<open>src/App.tsx\<close>\<close>

text \<open>
  The component \<open>PokemonGuessingGame\<close> keeps four pieces of React state, has two
  asynchronous handlers (\<open>startNewGame\<close>, \<open>excludeSpecies\<close>) that talk to the
  server through \<open>fetch\<close>, and one synchronous function (\<open>getSpeciesBorderColor\<close>)
  that derives the border colour of a card. The embedding is by explicit state passing:
  a handler takes the state and the way its \<open>fetch\<close> settles and returns the new state
  together with the platform calls it made, in program order.
\<close>

subsection \<open>Data (lines 4--26)\<close>

datatype species_state = AVAILABLE | EXCLUDED

datatype game_state = IN_PROGRESS | COMPLETED | FAILED

text \<open>
  \<open>interface Species\<close>. The fields \<open>id\<close>, \<open>form\<close> and \<open>state\<close> carry a prefix:
  \<open>id\<close> is a constant of HOL, and \<open>id\<close> and \<open>form\<close> occur in other interfaces too.
  \<open>string | null\<close> is \<open>string option\<close>, with \<open>None\<close> for \<open>null\<close>.
\<close>

record Species =
  name :: string
  imageUrl :: "string option"
  species_id :: int
  species_form :: "string option"
  species_state :: species_state

text \<open>\<open>interface GameData\<close>; its \<open>id\<close> is \<open>game_id\<close>.\<close>

record GameData =
  game_id :: int
  species :: "Species list"
  gameState :: game_state
  hint :: string
  explanation :: string
  expectedExclusions :: int
  validGuess :: bool

text \<open>\<open>interface ExcludeRequest\<close>; its \<open>form\<close> is \<open>request_form\<close>.\<close>

record ExcludeRequest =
  gameId :: int
  speciesId :: int
  request_form :: "string option"

text \<open>The object \<open>{id, form}\<close> kept in \<open>lastClickedSpecies\<close> (line 32).\<close>

record Clicked =
  clicked_id :: int
  clicked_form :: "string option"

text \<open>The four \<open>useState\<close> cells of the component (lines 29--32).\<close>

record AppState =
  gameData :: "GameData option"
  loading :: bool
  error :: "string option"
  lastClickedSpecies :: "Clicked option"

subsection \<open>The platform: thrown values, \<open>fetch\<close>, \<open>Response\<close>\<close>

text \<open>
  A value caught by \<open>catch (err)\<close>. The handlers inspect it with
  \<open>err instanceof TypeError\<close>, \<open>err instanceof Error\<close> and \<open>err.message\<close> only, so
  three shapes are told apart: a \<open>TypeError\<close> (what \<open>fetch\<close> rejects with on a
  network failure), any other \<open>Error\<close> instance (\<open>Error\<close>, \<open>SyntaxError\<close>, ...),
  each with its message, and a thrown value that is no \<open>Error\<close> at all.
\<close>

datatype js_error = TypeError string | Error string | NotAnError

text \<open>
  What \<open>response.json()\<close> settles to. The annotation \<open>const data: GameData\<close> is an
  unchecked cast; the model follows the declared type, so a body that parses is a
  \<open>GameData\<close>, and a body that is not JSON makes \<open>json()\<close> reject.
\<close>

datatype json_result = JsonRejects js_error | JsonResolves GameData

text \<open>
  A \<open>Response\<close>: the handlers read \<open>response.ok\<close>, \<open>response.status\<close> and
  \<open>response.json()\<close>. \<open>ok\<close> is the platform's getter: true exactly for a status
  from 200 to 299.
\<close>

record Response =
  status :: nat
  json :: json_result

definition ok :: "Response \<Rightarrow> bool" where
  "ok response = (200 \<le> status response \<and> status response \<le> 299)"

datatype fetch_result = FetchRejects js_error | FetchResolves Response

text \<open>
  The two calls of \<open>fetch\<close> in the file: \<open>POST /game/new\<close> without a body (lines
  43--49) and \<open>POST /game/exclude\<close> with the request as JSON body (lines 84--91).
\<close>

datatype fetch_call = PostGameNew | PostGameExclude ExcludeRequest

text \<open>
  The platform calls a handler makes, in program order: a \<open>fetch\<close>, and the reading of
  the body by \<open>response.json()\<close>.
\<close>

datatype effect = Fetch fetch_call | ReadJson

subsection \<open>Strings\<close>

text \<open>\<open>String.prototype.includes\<close> (\<open>includes\<close> is a keyword of Isabelle): the argument occurs as a
  contiguous part of the string.\<close>

fun startsWith :: "string \<Rightarrow> string \<Rightarrow> bool" where
  "startsWith s [] = True"
| "startsWith [] (c # cs) = False"
| "startsWith (d # ds) (c # cs) = (d = c \<and> startsWith ds cs)"

fun includes_str :: "string \<Rightarrow> string \<Rightarrow> bool" where
  "includes_str [] t = (t = [])"
| "includes_str (d # ds) t = (startsWith (d # ds) t \<or> includes_str ds t)"

text \<open>The decimal digits of a number, as a template literal prints an integer.\<close>

definition digit :: "nat \<Rightarrow> char" where
  "digit d = ''0123456789'' ! d"

function decimal :: "nat \<Rightarrow> string" where
  "decimal n = (if n < 10 then [digit n] else decimal (n div 10) @ [digit (n mod 10)])"
  by pat_completeness auto
termination
  by (relation "measure (\<lambda>n. n)") auto

subsection \<open>\<open>startNewGame\<close> (lines 37--66)\<close>

text \<open>
  Lines 38--49: the three setters and the call of \<open>fetch\<close>. The state returned is the
  one in which the request is issued.
\<close>

definition startNewGame_begin :: "AppState \<Rightarrow> AppState \<times> fetch_call" where
  "startNewGame_begin s =
     (s\<lparr>loading := True, error := None, lastClickedSpecies := None\<rparr>, PostGameNew)"

text \<open>
  Lines 43--55, once the request is out: the rest of the \<open>try\<close> block either throws
  (\<open>Inl\<close>) or has the data for \<open>setGameData\<close> (\<open>Inr\<close>).
\<close>

definition startNewGame_try :: "fetch_result \<Rightarrow> (js_error + GameData) \<times> effect list" where
  "startNewGame_try r =
     (case r of
        FetchRejects err \<Rightarrow> (Inl err, [])
      | FetchResolves response \<Rightarrow>
          if \<not> ok response
          then (Inl (Error (''HTTP error! status: '' @ decimal (status response))), [])
          else (case json response of
                  JsonRejects err \<Rightarrow> (Inl err, [ReadJson])
                | JsonResolves data \<Rightarrow> (Inr data, [ReadJson])))"

text \<open>Lines 57--62: the message that the \<open>catch\<close> block passes to \<open>setError\<close>.\<close>

fun startNewGame_catch :: "js_error \<Rightarrow> string" where
  "startNewGame_catch (TypeError m) =
     (if includes_str m ''Failed to fetch''
      then ''CORS Error: Unable to connect to backend. Please check your backend CORS configuration or use a proxy.''
      else m)"
| "startNewGame_catch (Error m) = m"
| "startNewGame_catch NotAnError = ''Failed to start new game''"

text \<open>Lines 55--65: what runs after the \<open>await\<close>, on the state of that moment.\<close>

definition startNewGame_resume :: "fetch_result \<Rightarrow> AppState \<Rightarrow> AppState \<times> effect list" where
  "startNewGame_resume r s =
     (case startNewGame_try r of
        (Inr data, fx) \<Rightarrow> (s\<lparr>gameData := Some data, loading := False\<rparr>, fx)
      | (Inl err, fx) \<Rightarrow> (s\<lparr>error := Some (startNewGame_catch err), loading := False\<rparr>, fx))"

text \<open>The whole handler, when nothing else runs while the request is out.\<close>

definition startNewGame :: "fetch_result \<Rightarrow> AppState \<Rightarrow> AppState \<times> effect list" where
  "startNewGame r s =
     (case startNewGame_begin s of
        (s1, call) \<Rightarrow>
          (case startNewGame_resume r s1 of (s2, fx) \<Rightarrow> (s2, Fetch call # fx)))"

subsection \<open>\<open>excludeSpecies\<close> (lines 68--108)\<close>

text \<open>
  Line 69 is the guard; lines 71--91 the setters, the request and the call of
  \<open>fetch\<close>. \<open>None\<close> in the second component: the handler returned at line 69.
\<close>

definition excludeSpecies_begin :: "Species \<Rightarrow> AppState \<Rightarrow> AppState \<times> fetch_call option" where
  "excludeSpecies_begin sp s =
     (case gameData s of
        None \<Rightarrow> (s, None)
      | Some g \<Rightarrow>
          if species_state sp \<noteq> AVAILABLE \<or> gameState g \<noteq> IN_PROGRESS then (s, None)
          else
            (s\<lparr>loading := True, error := None,
               lastClickedSpecies :=
                 Some \<lparr>clicked_id = species_id sp, clicked_form = species_form sp\<rparr>\<rparr>,
             Some (PostGameExclude
               \<lparr>gameId = game_id g, speciesId = species_id sp,
                request_form = species_form sp\<rparr>)))"

text \<open>Lines 84--97, once the request is out.\<close>

definition excludeSpecies_try :: "fetch_result \<Rightarrow> (js_error + GameData) \<times> effect list" where
  "excludeSpecies_try r =
     (case r of
        FetchRejects err \<Rightarrow> (Inl err, [])
      | FetchResolves response \<Rightarrow>
          if \<not> ok response
          then (Inl (Error (''HTTP error! status: '' @ decimal (status response))), [])
          else (case json response of
                  JsonRejects err \<Rightarrow> (Inl err, [ReadJson])
                | JsonResolves data \<Rightarrow> (Inr data, [ReadJson])))"

text \<open>Lines 99--104.\<close>

fun excludeSpecies_catch :: "js_error \<Rightarrow> string" where
  "excludeSpecies_catch (TypeError m) =
     (if includes_str m ''Failed to fetch''
      then ''CORS Error: Unable to connect to backend. Please check your backend CORS configuration.''
      else m)"
| "excludeSpecies_catch (Error m) = m"
| "excludeSpecies_catch NotAnError = ''Failed to exclude species''"

text \<open>Lines 97--107.\<close>

definition excludeSpecies_resume :: "fetch_result \<Rightarrow> AppState \<Rightarrow> AppState \<times> effect list" where
  "excludeSpecies_resume r s =
     (case excludeSpecies_try r of
        (Inr data, fx) \<Rightarrow> (s\<lparr>gameData := Some data, loading := False\<rparr>, fx)
      | (Inl err, fx) \<Rightarrow> (s\<lparr>error := Some (excludeSpecies_catch err), loading := False\<rparr>, fx))"

text \<open>The whole handler, when nothing else runs while the request is out.\<close>

definition excludeSpecies :: "fetch_result \<Rightarrow> Species \<Rightarrow> AppState \<Rightarrow> AppState \<times> effect list" where
  "excludeSpecies r sp s =
     (case excludeSpecies_begin sp s of
        (s1, None) \<Rightarrow> (s1, [])
      | (s1, Some call) \<Rightarrow>
          (case excludeSpecies_resume r s1 of (s2, fx) \<Rightarrow> (s2, Fetch call # fx)))"

subsection \<open>The controls that call the handlers (lines 172--178, 199--205, 216--226)\<close>

text \<open>
  Both buttons have \<open>onClick={startNewGame}\<close> and \<open>disabled={loading}\<close>: a disabled
  button dispatches no click, so the handler does not run (\<open>None\<close>: no request). A
  card has \<open>onClick={() => excludeSpecies(species)}\<close> and no condition.
\<close>

definition clickNewGame :: "AppState \<Rightarrow> AppState \<times> fetch_call option" where
  "clickNewGame s =
     (if loading s then (s, None)
      else (case startNewGame_begin s of (s1, call) \<Rightarrow> (s1, Some call)))"

definition clickCard :: "Species \<Rightarrow> AppState \<Rightarrow> AppState \<times> fetch_call option" where
  "clickCard sp s = excludeSpecies_begin sp s"

subsection \<open>\<open>getSpeciesBorderColor\<close> (lines 110--131)\<close>

text \<open>
  The function reads \<open>gameData\<close> and \<open>lastClickedSpecies\<close> and calls no setter, so
  its model has no state to return. \<open>===\<close> on a number and on \<open>string | null\<close> is
  equality of the values.
\<close>

definition getSpeciesBorderColor :: "AppState \<Rightarrow> Species \<Rightarrow> string" where
  "getSpeciesBorderColor s sp =
     (case (gameData s, lastClickedSpecies s) of
        (Some g, Some c) \<Rightarrow>
          if species_id sp = clicked_id c \<and> species_form sp = clicked_form c
          then (if gameState g = FAILED then ''#e74c3c''
                else if validGuess g then ''#27ae60''
                else ''#f39c12'')
          else (if species_state sp = EXCLUDED then ''#95a5a6'' else ''#3498db'')
      | _ \<Rightarrow> (if species_state sp = EXCLUDED then ''#95a5a6'' else ''#3498db''))"

subsection \<open>Failing transport calls\<close>

text \<open>
  The ways a transport call fails: \<open>fetch\<close> rejects (no connection), the response has
  a status outside 200--299, or the body cannot be read as JSON.
\<close>

fun transport_fails :: "fetch_result \<Rightarrow> bool" where
  "transport_fails (FetchRejects err) = True"
| "transport_fails (FetchResolves response) =
     (if ok response then (case json response of JsonRejects err \<Rightarrow> True | JsonResolves d \<Rightarrow> False)
      else True)"

subsection \<open>Sample data\<close>

text \<open>The roster and the responses of the scenarios A to D.\<close>

definition candidate10 :: Species where
  "candidate10 =
     \<lparr>name = ''Bulbasaur'', imageUrl = None, species_id = 10, species_form = None,
      species_state = AVAILABLE\<rparr>"

definition candidate11 :: Species where
  "candidate11 =
     \<lparr>name = ''Ivysaur'', imageUrl = None, species_id = 11, species_form = None,
      species_state = AVAILABLE\<rparr>"

definition scenarioA :: GameData where
  "scenarioA =
     \<lparr>game_id = 1, species = [candidate10, candidate11], gameState = IN_PROGRESS,
      hint = ''a hint'', explanation = [], expectedExclusions = 1, validGuess = False\<rparr>"

definition scenarioB :: GameData where
  "scenarioB =
     scenarioA\<lparr>species := [candidate10\<lparr>species_state := EXCLUDED\<rparr>, candidate11]\<rparr>"

definition scenarioC :: GameData where
  "scenarioC =
     scenarioB\<lparr>species := [candidate10\<lparr>species_state := EXCLUDED\<rparr>,
                           candidate11\<lparr>species_state := EXCLUDED\<rparr>],
               gameState := COMPLETED, validGuess := True\<rparr>"

definition scenarioD :: GameData where
  "scenarioD =
     scenarioA\<lparr>species := [candidate10\<lparr>species_state := EXCLUDED\<rparr>, candidate11],
               gameState := FAILED\<rparr>"

text \<open>The state of a fresh component, and the state once a game is shown.\<close>

definition initial :: AppState where
  "initial = \<lparr>gameData = None, loading = False, error = None, lastClickedSpecies = None\<rparr>"

definition showing :: "GameData \<Rightarrow> AppState" where
  "showing g = initial\<lparr>gameData := Some g\<rparr>"

text \<open>Three ways a request settles without a usable answer.\<close>

definition unreachable :: fetch_result where
  "unreachable = FetchRejects (TypeError ''Failed to fetch'')"

definition status500 :: fetch_result where
  "status500 = FetchResolves \<lparr>status = 500, json = JsonResolves scenarioA\<rparr>"


text \<open>
  States reached in the scenarios: the request for candidate 10 is out; that request
  was answered with status 500; a game is shown with a remembered click.
\<close>

definition excluding10 :: AppState where
  "excluding10 = fst (excludeSpecies_begin candidate10 (showing scenarioA))"

definition failed500 :: AppState where
  "failed500 = fst (excludeSpecies status500 candidate10 (showing scenarioA))"

definition pending :: "int \<Rightarrow> string option \<Rightarrow> GameData \<Rightarrow> AppState" where
  "pending i f g =
     (showing g)\<lparr>lastClickedSpecies := Some \<lparr>clicked_id = i, clicked_form = f\<rparr>\<rparr>"

text \<open>A second form of candidate 10: the same \<open>id\<close>, another \<open>form\<close>.\<close>

definition alolan10 :: Species where
  "alolan10 = candidate10\<lparr>species_form := Some ''alola''\<rparr>"


section \<open>Properties\<close>

subsection \<open>What the handlers do, case by case\<close>

lemma startNewGame_try_fails:
  "transport_fails r \<Longrightarrow> \<exists>err fx. startNewGame_try r = (Inl err, fx)"
  by (cases r) (auto simp: startNewGame_try_def split: json_result.splits if_splits)


lemma startNewGame_thrown:
  "startNewGame_try r = (Inl err, fx) \<Longrightarrow>
   startNewGame r s =
     (s\<lparr>loading := False, error := Some (startNewGame_catch err), lastClickedSpecies := None\<rparr>,
      Fetch PostGameNew # fx)"
  by (simp add: startNewGame_def startNewGame_begin_def startNewGame_resume_def)

lemma excludeSpecies_rejected:
  "excludeSpecies_begin sp s = (s1, None) \<Longrightarrow> excludeSpecies r sp s = (s1, [])"
  by (simp add: excludeSpecies_def)



lemma excludeSpecies_begin_illegal:
  "gameData s = None \<or> species_state sp \<noteq> AVAILABLE \<or>
   (\<exists>g. gameData s = Some g \<and> gameState g \<noteq> IN_PROGRESS) \<Longrightarrow>
   excludeSpecies_begin sp s = (s, None)"
  by (auto simp: excludeSpecies_begin_def split: option.splits)



text \<open>The state while the request for candidate 10 is out.\<close>

lemma excluding10_eq: "excluding10 = \<lparr>gameData = Some scenarioA, loading = True, error = None,
       lastClickedSpecies = Some \<lparr>clicked_id = 10, clicked_form = None\<rparr>\<rparr>"
  by (simp add: excluding10_def excludeSpecies_begin_def showing_def initial_def scenarioA_def candidate10_def)

subsection \<open>Requests in flight\<close>

text \<open>
  C1 (as amended). While \<open>loading\<close> is set, both buttons that start a game are
  disabled: a click on them runs no handler, so no request is issued and the whole
  state, the error included, stays as it is. Nothing records or returns a failure of
  kind Busy.
\<close>

theorem busy_disables_new_game:
  "loading s \<Longrightarrow> clickNewGame s = (s, None)"
  by (simp add: clickNewGame_def)

text \<open>The amended C1 at the state in which the request for candidate 10 is out.\<close>

theorem busy_disables_new_game_witness:
  "loading excluding10 \<and> clickNewGame excluding10 = (excluding10, None)"
proof -
  have busy: "loading excluding10"
    by (simp add: excluding10_eq)
  from busy_disables_new_game [OF busy] busy show ?thesis
    by simp
qed

text \<open>
  C1 as stated fails. While the request for candidate 10 is out (\<open>loading\<close> is
  set): a click on the start button is dropped and leaves the error \<open>null\<close>, so
  there is no Busy failure; a click on the card of candidate 11 passes line 69, which
  does not read \<open>loading\<close>, and issues a second request; and \<open>startNewGame\<close>
  itself, if called, issues its request too.
\<close>

theorem busy_counterexample:
  "loading excluding10 \<and> error excluding10 = None \<and>
   clickNewGame excluding10 = (excluding10, None) \<and>
   snd (clickCard candidate11 excluding10) =
     Some (PostGameExclude \<lparr>gameId = 1, speciesId = 11, request_form = None\<rparr>) \<and>
   snd (startNewGame unreachable excluding10) = [Fetch PostGameNew]"
  by (simp add: excluding10_eq clickNewGame_def clickCard_def excludeSpecies_begin_def
      scenarioA_def candidate11_def startNewGame_def startNewGame_begin_def
      startNewGame_resume_def startNewGame_try_def unreachable_def)


subsection \<open>A failed start\<close>

text \<open>
  C2 as stated fails: with game 1 on the screen, a start that cannot reach the server
  leaves game 1 in \<open>gameData\<close>; the component is not back at "no session".
\<close>

theorem startNewGame_failure_counterexample:
  "transport_fails unreachable \<and>
   gameData (fst (startNewGame unreachable (showing scenarioA))) = Some scenarioA"
  by (simp add: unreachable_def startNewGame_def startNewGame_begin_def
      startNewGame_resume_def startNewGame_try_def showing_def initial_def)

text \<open>
  C2 (as amended). When the transport call of \<open>startNewGame\<close> fails, \<open>gameData\<close>
  is what it was before the call (so there is no session afterwards exactly when there
  was none before), the message chosen by the \<open>catch\<close> block for the thrown value
  is stored in \<open>error\<close>, \<open>loading\<close> is cleared and the remembered click is
  cleared.
\<close>

theorem startNewGame_failure:
  assumes "transport_fails r"
  shows "gameData (fst (startNewGame r s)) = gameData s \<and>
         (gameData s = None \<longrightarrow> gameData (fst (startNewGame r s)) = None) \<and>
         (\<exists>err. fst (startNewGame_try r) = Inl err \<and>
                error (fst (startNewGame r s)) = Some (startNewGame_catch err)) \<and>
         loading (fst (startNewGame r s)) = False \<and>
         lastClickedSpecies (fst (startNewGame r s)) = None"
proof -
  from assms obtain err fx where thrown: "startNewGame_try r = (Inl err, fx)"
    using startNewGame_try_fails by blast
  show ?thesis
    by (simp add: startNewGame_thrown [OF thrown] thrown)
qed

text \<open>The amended C2 for a response with status 500, with and without a game shown.\<close>

theorem startNewGame_failure_witness:
  "transport_fails status500 \<and>
   gameData (fst (startNewGame status500 (showing scenarioB))) = Some scenarioB \<and>
   error (fst (startNewGame status500 (showing scenarioB))) = Some ''HTTP error! status: 500'' \<and>
   gameData (fst (startNewGame status500 initial)) = None"
proof -
  have fails: "transport_fails status500"
    by (simp add: status500_def ok_def)
  have thrown: "fst (startNewGame_try status500) = Inl (Error ''HTTP error! status: 500'')"
    by (simp add: status500_def startNewGame_try_def ok_def digit_def)
  from startNewGame_failure [OF fails, of "showing scenarioB"]
       startNewGame_failure [OF fails, of initial] fails thrown
  show ?thesis
    by (auto simp: showing_def initial_def)
qed

subsection \<open>Exclusions that are not legal\<close>

text \<open>
  C3 as stated fails: an exclusion after the game has ended, and an exclusion of a
  candidate that is already excluded, return at line 69 and leave \<open>error\<close> at
  \<open>null\<close>: no failure is recorded, and the handler returns no value.
\<close>

theorem excludeSpecies_illegal_counterexample:
  "gameState scenarioC \<noteq> IN_PROGRESS \<and>
   error (fst (excludeSpecies unreachable candidate11 (showing scenarioC))) = None \<and>
   species_state (candidate10\<lparr>species_state := EXCLUDED\<rparr>) = EXCLUDED \<and>
   error (fst (excludeSpecies unreachable (candidate10\<lparr>species_state := EXCLUDED\<rparr>)
                 (showing scenarioB))) = None"
  by (simp add: excludeSpecies_def excludeSpecies_begin_def showing_def initial_def
      scenarioC_def scenarioB_def scenarioA_def)

text \<open>
  C3 (as amended). With a game shown, \<open>excludeSpecies\<close> for a game that is no longer
  in progress, or for a candidate that is excluded, is dropped silently: the guard
  runs before anything else, no request is issued, no platform call is made, and the
  surfaced error keeps the value it had. No failure of kind InvalidState exists.
\<close>

theorem excludeSpecies_illegal_is_dropped:
  assumes "gameData s = Some g"
    and "gameState g \<noteq> IN_PROGRESS \<or> species_state sp = EXCLUDED"
  shows "snd (excludeSpecies_begin sp s) = None \<and>
         snd (excludeSpecies r sp s) = [] \<and>
         error (fst (excludeSpecies r sp s)) = error s"
proof -
  from assms have "excludeSpecies_begin sp s = (s, None)"
    by (intro excludeSpecies_begin_illegal) auto
  then show ?thesis
    by (simp add: excludeSpecies_rejected)
qed

text \<open>The amended C3 after the game was won (scenario C).\<close>

theorem excludeSpecies_illegal_is_dropped_witness:
  "gameData (showing scenarioC) = Some scenarioC \<and> gameState scenarioC \<noteq> IN_PROGRESS \<and>
   snd (excludeSpecies_begin candidate11 (showing scenarioC)) = None \<and>
   snd (excludeSpecies status500 candidate11 (showing scenarioC)) = [] \<and>
   error (fst (excludeSpecies status500 candidate11 (showing scenarioC))) = None"
proof -
  have session: "gameData (showing scenarioC) = Some scenarioC"
    by (simp add: showing_def)
  have ended: "gameState scenarioC \<noteq> IN_PROGRESS"
    by (simp add: scenarioC_def)
  from ended have guard: "gameState scenarioC \<noteq> IN_PROGRESS \<or> species_state candidate11 = EXCLUDED"
    by simp
  from excludeSpecies_illegal_is_dropped [OF session guard, of status500] session ended
  show ?thesis
    by (simp add: showing_def initial_def)
qed

subsection \<open>A failed exclusion\<close>




subsection \<open>The colour of the clicked card\<close>

text \<open>
  C5. For the candidate whose \<open>(id, form)\<close> is the remembered click, with a game
  shown: the colour is red (\<open>#e74c3c\<close>, lost) whenever the game state is
  \<open>FAILED\<close>, whatever \<open>validGuess\<close> says; otherwise green (\<open>#27ae60\<close>,
  correct) when \<open>validGuess\<close> is true and orange (\<open>#f39c12\<close>, incorrect but
  continuing) when it is false.
\<close>

theorem pending_candidate_colour:
  assumes "gameData s = Some g"
    and "lastClickedSpecies s = Some \<lparr>clicked_id = species_id sp, clicked_form = species_form sp\<rparr>"
  shows "(gameState g = FAILED \<longrightarrow> getSpeciesBorderColor s sp = ''#e74c3c'') \<and>
         (gameState g \<noteq> FAILED \<and> validGuess g \<longrightarrow> getSpeciesBorderColor s sp = ''#27ae60'') \<and>
         (gameState g \<noteq> FAILED \<and> \<not> validGuess g \<longrightarrow> getSpeciesBorderColor s sp = ''#f39c12'')"
  using assms by (simp add: getSpeciesBorderColor_def)

text \<open>
  C5 in the scenarios: lost although \<open>validGuess\<close> is true, won, and a wrong guess
  that lets the game go on.
\<close>

theorem pending_candidate_colour_witness:
  "gameData (pending 10 None (scenarioD\<lparr>validGuess := True\<rparr>)) = Some (scenarioD\<lparr>validGuess := True\<rparr>) \<and>
   gameState (scenarioD\<lparr>validGuess := True\<rparr>) = FAILED \<and>
   getSpeciesBorderColor (pending 10 None (scenarioD\<lparr>validGuess := True\<rparr>)) candidate10 = ''#e74c3c'' \<and>
   getSpeciesBorderColor (pending 11 None scenarioC) candidate11 = ''#27ae60'' \<and>
   getSpeciesBorderColor (pending 10 None scenarioB) candidate10 = ''#f39c12''"
proof -
  have lost: "gameData (pending 10 None (scenarioD\<lparr>validGuess := True\<rparr>)) = Some (scenarioD\<lparr>validGuess := True\<rparr>)"
    and won: "gameData (pending 11 None scenarioC) = Some scenarioC"
    and continuing: "gameData (pending 10 None scenarioB) = Some scenarioB"
    by (simp_all add: pending_def showing_def)
  have key10: "lastClickedSpecies (pending 10 None g) =
      Some \<lparr>clicked_id = species_id candidate10, clicked_form = species_form candidate10\<rparr>"
    and key11: "lastClickedSpecies (pending 11 None g) =
      Some \<lparr>clicked_id = species_id candidate11, clicked_form = species_form candidate11\<rparr>" for g
    by (simp_all add: pending_def candidate10_def candidate11_def)
  from pending_candidate_colour [OF lost key10] pending_candidate_colour [OF won key11]
       pending_candidate_colour [OF continuing key10] lost
  show ?thesis
    by (simp add: scenarioD_def scenarioC_def scenarioB_def scenarioA_def)
qed

subsection \<open>The colour of every other card\<close>

text \<open>
  C6. A candidate whose \<open>(id, form)\<close> is not the remembered click (there is none,
  or the \<open>id\<close> differs, or the \<open>id\<close> is the same and the \<open>form\<close> differs)
  gets its colour from its own \<open>state\<close> alone: gray (\<open>#95a5a6\<close>) when
  excluded, blue (\<open>#3498db\<close>) when available.
\<close>

theorem other_candidate_colour:
  assumes "lastClickedSpecies s \<noteq>
             Some \<lparr>clicked_id = species_id sp, clicked_form = species_form sp\<rparr>"
  shows "(species_state sp = EXCLUDED \<longrightarrow> getSpeciesBorderColor s sp = ''#95a5a6'') \<and>
         (species_state sp = AVAILABLE \<longrightarrow> getSpeciesBorderColor s sp = ''#3498db'')"
proof -
  have "species_id sp \<noteq> clicked_id c \<or> species_form sp \<noteq> clicked_form c"
    if "lastClickedSpecies s = Some c" for c
    using assms that by (cases c) auto
  then show ?thesis
    by (auto simp: getSpeciesBorderColor_def split: option.splits)
qed

text \<open>
  C6 for two forms of candidate 10, after the Alolan form was clicked and the game was
  lost: the plain form is blue or gray by its state, only the Alolan form is red.
\<close>

theorem other_candidate_colour_witness:
  "lastClickedSpecies (pending 10 (Some ''alola'') scenarioD) \<noteq>
     Some \<lparr>clicked_id = species_id candidate10, clicked_form = species_form candidate10\<rparr> \<and>
   species_id candidate10 = species_id alolan10 \<and>
   getSpeciesBorderColor (pending 10 (Some ''alola'') scenarioD) candidate10 = ''#3498db'' \<and>
   getSpeciesBorderColor (pending 10 (Some ''alola'') scenarioD)
     (candidate10\<lparr>species_state := EXCLUDED\<rparr>) = ''#95a5a6'' \<and>
   getSpeciesBorderColor (pending 10 (Some ''alola'') scenarioD) alolan10 = ''#e74c3c''"
proof -
  have other: "lastClickedSpecies (pending 10 (Some ''alola'') scenarioD) \<noteq>
      Some \<lparr>clicked_id = species_id candidate10, clicked_form = species_form candidate10\<rparr>"
    by (simp add: pending_def candidate10_def)
  then have other': "lastClickedSpecies (pending 10 (Some ''alola'') scenarioD) \<noteq>
      Some \<lparr>clicked_id = species_id (candidate10\<lparr>species_state := EXCLUDED\<rparr>),
            clicked_form = species_form (candidate10\<lparr>species_state := EXCLUDED\<rparr>)\<rparr>"
    by simp
  have same: "getSpeciesBorderColor (pending 10 (Some ''alola'') scenarioD) alolan10 = ''#e74c3c''"
    by (simp add: getSpeciesBorderColor_def pending_def showing_def initial_def alolan10_def
        candidate10_def scenarioD_def)
  from other_candidate_colour [OF other] other_candidate_colour [OF other'] other same
  show ?thesis
    by (simp add: candidate10_def alolan10_def)
qed

subsection \<open>The colour is a function of snapshot and remembered click\<close>

text \<open>
  C8. The colour of a candidate is determined by the snapshot and the remembered click:
  two states that agree on \<open>gameData\<close> and \<open>lastClickedSpecies\<close> give every
  candidate the same colour, whatever \<open>loading\<close> and \<open>error\<close> hold. The
  function calls no setter, so computing a colour leaves every state cell as it is.
\<close>

theorem getSpeciesBorderColor_pure:
  assumes "gameData s = gameData s'"
    and "lastClickedSpecies s = lastClickedSpecies s'"
  shows "getSpeciesBorderColor s sp = getSpeciesBorderColor s' sp"
  using assms by (simp add: getSpeciesBorderColor_def)

text \<open>C8 for the roster of scenario B, in two states that differ in \<open>loading\<close> and \<open>error\<close>.\<close>

theorem getSpeciesBorderColor_pure_witness:
  "gameData (pending 10 None scenarioB) =
     gameData ((pending 10 None scenarioB)\<lparr>loading := True, error := Some ''HTTP error! status: 500''\<rparr>) \<and>
   pending 10 None scenarioB \<noteq>
     (pending 10 None scenarioB)\<lparr>loading := True, error := Some ''HTTP error! status: 500''\<rparr> \<and>
   map (getSpeciesBorderColor (pending 10 None scenarioB)) (species scenarioB) =
   map (getSpeciesBorderColor
          ((pending 10 None scenarioB)\<lparr>loading := True, error := Some ''HTTP error! status: 500''\<rparr>))
     (species scenarioB)"
proof -
  let ?s = "pending 10 None scenarioB"
  let ?s' = "?s\<lparr>loading := True, error := Some ''HTTP error! status: 500''\<rparr>"
  have snapshot: "gameData ?s = gameData ?s'" and action: "lastClickedSpecies ?s = lastClickedSpecies ?s'"
    by simp_all
  have "loading ?s \<noteq> loading ?s'"
    by (simp add: pending_def showing_def initial_def)
  then have differ: "?s \<noteq> ?s'"
    by metis
  from getSpeciesBorderColor_pure [OF snapshot action] snapshot differ
  show ?thesis
    by simp
qed

subsection \<open>Server errors and connection failures\<close>



subsection \<open>A rejected exclusion changes nothing\<close>

text \<open>
  C9. When the guard of line 69 rejects (no game, a game that is not in progress, or a
  candidate that is not available), the handler returns at once: the state after the
  call is the state before it in every cell (\<open>gameData\<close>, \<open>loading\<close>,
  \<open>error\<close>, \<open>lastClickedSpecies\<close>), and no platform call is made.
\<close>

theorem excludeSpecies_rejected_frame:
  assumes "gameData s = None \<or> (\<exists>g. gameData s = Some g \<and> gameState g \<noteq> IN_PROGRESS) \<or>
           species_state sp \<noteq> AVAILABLE"
  shows "excludeSpecies_begin sp s = (s, None) \<and> excludeSpecies r sp s = (s, [])"
proof -
  from assms have "excludeSpecies_begin sp s = (s, None)"
    by (intro excludeSpecies_begin_illegal) auto
  then show ?thesis
    by (simp add: excludeSpecies_rejected)
qed

text \<open>
  C9 in each of the three cases, on states that hold an earlier error message and a
  remembered click.
\<close>

theorem excludeSpecies_rejected_frame_witness:
  "gameData (failed500\<lparr>gameData := None\<rparr>) = None \<and>
   error (failed500\<lparr>gameData := None\<rparr>) = Some ''HTTP error! status: 500'' \<and>
   excludeSpecies (FetchResolves \<lparr>status = 200, json = JsonResolves scenarioB\<rparr>) candidate10
     (failed500\<lparr>gameData := None\<rparr>) = (failed500\<lparr>gameData := None\<rparr>, []) \<and>
   excludeSpecies (FetchResolves \<lparr>status = 200, json = JsonResolves scenarioB\<rparr>) candidate10
     (failed500\<lparr>gameData := Some scenarioD, loading := True\<rparr>) =
     (failed500\<lparr>gameData := Some scenarioD, loading := True\<rparr>, []) \<and>
   excludeSpecies (FetchResolves \<lparr>status = 200, json = JsonResolves scenarioB\<rparr>)
     (candidate10\<lparr>species_state := EXCLUDED\<rparr>) failed500 = (failed500, [])"
proof -
  let ?r = "FetchResolves \<lparr>status = 200, json = JsonResolves scenarioB\<rparr>"
  have none: "gameData (failed500\<lparr>gameData := None\<rparr>) = None"
    by simp
  have ended: "\<exists>g. gameData (failed500\<lparr>gameData := Some scenarioD, loading := True\<rparr>) = Some g \<and>
      gameState g \<noteq> IN_PROGRESS"
    by (simp add: scenarioD_def)
  have excluded: "species_state (candidate10\<lparr>species_state := EXCLUDED\<rparr>) \<noteq> AVAILABLE"
    by simp
  have message: "error (failed500\<lparr>gameData := None\<rparr>) = Some ''HTTP error! status: 500''"
    by (simp add: failed500_def excludeSpecies_def excludeSpecies_begin_def
        excludeSpecies_resume_def excludeSpecies_try_def showing_def initial_def scenarioA_def
        candidate10_def status500_def ok_def digit_def)
  from excludeSpecies_rejected_frame [of "failed500\<lparr>gameData := None\<rparr>" candidate10 ?r]
       excludeSpecies_rejected_frame
         [of "failed500\<lparr>gameData := Some scenarioD, loading := True\<rparr>" candidate10 ?r]
       excludeSpecies_rejected_frame [of failed500 "candidate10\<lparr>species_state := EXCLUDED\<rparr>" ?r]
       none ended excluded message
  show ?thesis
    by blast
qed

subsection \<open>Every action clears the previous error\<close>

text \<open>
  C10. In the state in which a handler issues its request, \<open>error\<close> is \<open>null\<close>:
  for every \<open>startNewGame\<close>, for every \<open>excludeSpecies\<close> that passes its guard,
  and for every click on a start button that is dispatched.
\<close>

theorem action_resets_error:
  "error (fst (startNewGame_begin s)) = None \<and>
   (\<forall>call. snd (excludeSpecies_begin sp s) = Some call \<longrightarrow>
      error (fst (excludeSpecies_begin sp s)) = None) \<and>
   (\<forall>call. snd (clickNewGame s) = Some call \<longrightarrow> error (fst (clickNewGame s)) = None)"
  by (auto simp: startNewGame_begin_def excludeSpecies_begin_def clickNewGame_def
      split: option.splits if_splits)

text \<open>C10 after an exclusion that was answered with status 500.\<close>

theorem action_resets_error_witness:
  "error failed500 = Some ''HTTP error! status: 500'' \<and>
   snd (excludeSpecies_begin candidate11 failed500) =
     Some (PostGameExclude \<lparr>gameId = 1, speciesId = 11, request_form = None\<rparr>) \<and>
   error (fst (excludeSpecies_begin candidate11 failed500)) = None \<and>
   snd (clickNewGame failed500) = Some PostGameNew \<and>
   error (fst (clickNewGame failed500)) = None \<and>
   error (fst (startNewGame_begin failed500)) = None"
proof -
  have state: "failed500 = \<lparr>gameData = Some scenarioA, loading = False,
      error = Some ''HTTP error! status: 500'',
      lastClickedSpecies = Some \<lparr>clicked_id = 10, clicked_form = None\<rparr>\<rparr>"
    by (simp add: failed500_def excludeSpecies_def excludeSpecies_begin_def
        excludeSpecies_resume_def excludeSpecies_try_def showing_def initial_def scenarioA_def
        candidate10_def status500_def ok_def digit_def)
  have exclude: "snd (excludeSpecies_begin candidate11 failed500) =
      Some (PostGameExclude \<lparr>gameId = 1, speciesId = 11, request_form = None\<rparr>)"
    by (simp add: state excludeSpecies_begin_def scenarioA_def candidate11_def)
  have start: "snd (clickNewGame failed500) = Some PostGameNew"
    by (simp add: state clickNewGame_def startNewGame_begin_def)
  have before: "error failed500 = Some ''HTTP error! status: 500''"
    by (simp add: state)
  from action_resets_error [of failed500 candidate11] exclude start before
  show ?thesis
    by simp
qed

end
